theory Spec2Isabelle
  imports Main "HOL-Library.Sublist"
begin

section \<open>JavaScript values and strings\<close>

text \<open>
  The installer \<^verbatim>\<open>scripts/openclaw-install.js\<close> has one function, \<^verbatim>\<open>main\<close>, which
  writes three files. One of them is the wrapper module \<^verbatim>\<open>openclaw-wrapper.js\<close>, whose
  source text stands in the installer as a template literal and defines \<^verbatim>\<open>store\<close>,
  \<^verbatim>\<open>query\<close>, \<^verbatim>\<open>autoStore\<close> and \<^verbatim>\<open>calculateImportance\<close>. The wrapper calls the
  package \<^verbatim>\<open>memory-bridge\<close> through \<^verbatim>\<open>memory.store\<close> and \<^verbatim>\<open>memory.query\<close>; that package
  is not part of the source, so it is a parameter of the model.

  A JavaScript string is a sequence of code units. The model uses \<^typ>\<open>string\<close>, whose
  characters are the code units below 256 (ISO 8859-1); \<open>length\<close> counts them, as the
  \<^verbatim>\<open>length\<close> property does.
\<close>

datatype jsval = Undefined | Null | Bool bool | Num int | Str string

text \<open>
  An options object: the own properties of a plain object, by name. A property that is
  present with the value \<^verbatim>\<open>undefined\<close> is \<open>Some Undefined\<close>; an absent one is \<open>None\<close>.
  The object spread \<^verbatim>\<open>{a: x, ...options}\<close> is \<open>[a \<mapsto> x] ++ options\<close>: a property of
  \<open>options\<close> replaces the one written before the spread.
\<close>

type_synonym jsobject = "string \<rightharpoonup> jsval"

text \<open>
  \<^verbatim>\<open>String.prototype.toLowerCase\<close> on one code unit below 256: the letters A to Z and the
  capital letters of ISO 8859-1 (U+00C0 to U+00DE without the multiplication sign U+00D7)
  move up by 32, every other code unit stays.
\<close>

definition toLowerCase_char :: "char \<Rightarrow> char" where
  "toLowerCase_char c =
     (let n = (of_char c :: nat)
      in if (65 \<le> n \<and> n \<le> 90) \<or> (192 \<le> n \<and> n \<le> 222 \<and> n \<noteq> 215)
         then char_of (n + 32) else c)"

definition toLowerCase :: "string \<Rightarrow> string" where
  "toLowerCase s = map toLowerCase_char s"

text \<open>
  \<^verbatim>\<open>s.includes(w)\<close>: \<open>w\<close> occurs in \<open>s\<close> as a contiguous run, compared code unit by code
  unit (case-sensitive). The search tries every start position from the left.
\<close>

fun includes_str :: "string \<Rightarrow> string \<Rightarrow> bool" where
  "includes_str [] w = (w = [])"
| "includes_str (c # cs) w = (prefix w (c # cs) \<or> includes_str cs w)"

text \<open>
  \<^verbatim>\<open>s.slice(b, e)\<close> for indices \<open>0 \<le> b\<close> and \<open>0 \<le> e\<close> (the wrapper only calls
  \<^verbatim>\<open>slice(0, 5000)\<close>): the code units from \<open>b\<close> up to, not including, \<open>e\<close>; indices past the
  end stop at the end.
\<close>

definition slice :: "nat \<Rightarrow> nat \<Rightarrow> string \<Rightarrow> string" where
  "slice b e s = take (e - b) (drop b s)"

text \<open>
  \<^verbatim>\<open>String.prototype.trim\<close> removes white space and line terminators from both ends.
  Below 256 these are TAB, LF, VT, FF, CR, SPACE and NO-BREAK SPACE.
\<close>

definition isWhiteSpace :: "char \<Rightarrow> bool" where
  "isWhiteSpace c =
     (let n = (of_char c :: nat)
      in n = 9 \<or> n = 10 \<or> n = 11 \<or> n = 12 \<or> n = 13 \<or> n = 32 \<or> n = 160)"

definition trim :: "string \<Rightarrow> string" where
  "trim s = rev (dropWhile isWhiteSpace (rev (dropWhile isWhiteSpace s)))"

section \<open>The importance heuristic of the wrapper\<close>

definition highValueWords :: "string list" where
  "highValueWords = [''decide'', ''build'', ''create'', ''launch'', ''important'',
     ''critical'', ''goal'', ''prefer'']"

text \<open>
  \<^verbatim>\<open>calculateImportance(userMsg, agentResp)\<close>, statement by statement: \<open>score\<close> is the
  mutable local of the source, rebound by each statement that assigns to it.
\<close>

definition calculateImportance :: "string \<Rightarrow> jsval \<Rightarrow> int" where
  "calculateImportance userMsg agentResp =
     (let score = 5;
          score = (if length userMsg > 100 then score + 1 else score);
          score = (if length userMsg > 300 then score + 1 else score);
          matches = length (filter (\<lambda>w. includes_str (toLowerCase userMsg) w) highValueWords);
          score = score + min 3 (int matches);
          score = (if includes_str (toLowerCase userMsg) ''security'' \<or>
                      includes_str (toLowerCase userMsg) ''password'' \<or>
                      includes_str (toLowerCase userMsg) ''api key''
                   then score + 3 else score)
      in min 10 score)"

section \<open>The wrapper's operations over the memory-bridge engine\<close>

text \<open>
  The engine behind \<^verbatim>\<open>memory\<close> is a parameter: its two methods take the content (or the
  query text) and an options object, run on the engine's state \<open>'db\<close>, and either return a
  value \<open>'v\<close> or throw (reject) with an \<open>'e\<close>. The state after the call is kept in both
  cases. An \<^verbatim>\<open>await\<close> of a rejected call rethrows, which ends the calling function.
\<close>

record ('db, 'e, 'v) engine =
  memory_store :: "string \<Rightarrow> jsobject \<Rightarrow> 'db \<Rightarrow> ('e + 'v) \<times> 'db"
  memory_query :: "string \<Rightarrow> jsobject \<Rightarrow> 'db \<Rightarrow> ('e + 'v) \<times> 'db"

text \<open>The configuration object that \<^verbatim>\<open>main\<close> writes to \<^verbatim>\<open>config.json\<close>.\<close>

type_synonym path = "string list"

record config =
  storage :: string
  db_path :: path
  agentId :: string
  version :: string

definition path_join :: "path \<Rightarrow> string \<Rightarrow> path" where
  "path_join dir name = dir @ [name]"

definition MEMORY_DIR :: "path \<Rightarrow> path" where
  "MEMORY_DIR OPENCLAW_DIR = path_join OPENCLAW_DIR ''.memory-bridge''"

definition default_config :: "path \<Rightarrow> config" where
  "default_config OPENCLAW_DIR =
     \<lparr> storage = ''sqlite'',
       db_path = path_join (MEMORY_DIR OPENCLAW_DIR) ''memory.db'',
       agentId = ''OpenClaw'',
       version = ''1.0.0'' \<rparr>"

text \<open>
  \<^verbatim>\<open>store(content, options = {})\<close>: \<open>sanitized\<close> is the local of that name, and
  \<open>storeOptions\<close> the object literal handed to \<^verbatim>\<open>memory.store\<close>.
\<close>

definition sanitized :: "string \<Rightarrow> string" where
  "sanitized content = trim (slice 0 5000 content)"

definition storeOptions :: "jsobject \<Rightarrow> jsobject" where
  "storeOptions options =
     [''agentId'' \<mapsto> Str ''OpenClaw'', ''source'' \<mapsto> Str ''openclaw-chat''] ++ options"

definition store ::
  "('db, 'e, 'v) engine \<Rightarrow> string \<Rightarrow> jsobject \<Rightarrow> 'db \<Rightarrow> ('e + 'v) \<times> 'db" where
  "store eng content options db =
     memory_store eng (sanitized content) (storeOptions options) db"

text \<open>\<^verbatim>\<open>query(queryString, options = {})\<close>.\<close>

definition queryOptions :: "jsobject \<Rightarrow> jsobject" where
  "queryOptions options =
     [''agentId'' \<mapsto> Str ''OpenClaw'', ''limit'' \<mapsto> Num 5, ''days'' \<mapsto> Num 30] ++ options"

definition query ::
  "('db, 'e, 'v) engine \<Rightarrow> string \<Rightarrow> jsobject \<Rightarrow> 'db \<Rightarrow> ('e + 'v) \<times> 'db" where
  "query eng queryString options db =
     memory_query eng queryString (queryOptions options) db"

text \<open>
  \<^verbatim>\<open>autoStore(userMessage, agentResponse)\<close>. The function returns \<^verbatim>\<open>undefined\<close>
  (\<open>Inr ()\<close>) unless one of its two \<^verbatim>\<open>await store(...)\<close> throws. The test for a decision
  word reads the message as it is, not lower-cased.
\<close>

definition autoStore ::
  "('db, 'e, 'v) engine \<Rightarrow> string \<Rightarrow> jsval \<Rightarrow> 'db \<Rightarrow> ('e + unit) \<times> 'db" where
  "autoStore eng userMessage agentResponse db =
     (let importance = calculateImportance userMessage agentResponse
      in if importance \<ge> 6 then
           (case store eng userMessage
                   [''type'' \<mapsto> Str (if importance \<ge> 8 then ''insight'' else ''conversation''),
                    ''importance'' \<mapsto> Num importance] db of
              (Inl e, db1) \<Rightarrow> (Inl e, db1)
            | (Inr _, db1) \<Rightarrow>
                if includes_str userMessage ''decide'' \<or> includes_str userMessage ''build'' \<or>
                   includes_str userMessage ''create''
                then
                  (case store eng (''Decision: '' @ userMessage)
                          [''type'' \<mapsto> Str ''decision'', ''importance'' \<mapsto> Num 9] db1 of
                     (Inl e, db2) \<Rightarrow> (Inl e, db2)
                   | (Inr _, db2) \<Rightarrow> (Inr (), db2))
                else (Inr (), db1))
         else (Inr (), db))"

text \<open>
  An engine that only records its calls, in order: its state is the list of the
  \<open>(content, options)\<close> pairs it was given. It is used to run the wrapper on concrete inputs.
\<close>

definition recording_engine :: "((string \<times> jsobject) list, unit, nat) engine" where
  "recording_engine =
     \<lparr> memory_store = (\<lambda>content options db. (Inr (length db), db @ [(content, options)])),
       memory_query = (\<lambda>queryString options db. (Inr 0, db)) \<rparr>"

section \<open>The memory-bridge engine, from the specification\<close>

text \<open>
  The package behind \<^verbatim>\<open>memory\<close> is not in the source. Its Importance Scorer and its
  \<^verbatim>\<open>store\<close> operation are modelled here from the specification (sections 3, 4.2, 4.4
  and 7), so that the wrapper's \<open>store\<close> can be run through to the Memory that is
  persisted. Keywords and creation times, whose computation the specification leaves
  open, are not part of the model; no statement below depends on them.
\<close>

text \<open>
  Modelled from the spec: the length adjustment of the missing Importance Scorer, "+1 if
  content length > 200 characters". The specification allows further tiers without naming
  any; the model has the one tier it states, so the length adds at most 1.
\<close>

definition lengthBonus :: "string \<Rightarrow> int" where
  "lengthBonus content = (if length content > 200 then 1 else 0)"

text \<open>
  Modelled from the spec: the type adjustment of the missing Importance Scorer, "+2 for
  insight type; +1 for error type; +2 for goal type".
\<close>

definition typeBonus :: "string \<Rightarrow> int" where
  "typeBonus ty =
     (if ty = ''insight'' then 2 else if ty = ''error'' then 1 else if ty = ''goal'' then 2
      else 0)"

text \<open>
  Modelled from the spec: the fixed list of signal words of the missing Importance Scorer,
  "security-related terms, password, key-material terms". The specification does not
  spell the list out; the three terms are those of the one such list in the source (the
  wrapper's \<^verbatim>\<open>calculateImportance\<close>).
\<close>

definition sensitiveWords :: "string list" where
  "sensitiveWords = [''security'', ''password'', ''api key'']"

text \<open>
  Modelled from the spec: the signal-word adjustment of the missing Importance Scorer, "+3
  if content contains security/credential-sensitive signal words (case-insensitive
  substring match against a fixed list)".
\<close>

definition sensitiveBonus :: "string \<Rightarrow> int" where
  "sensitiveBonus content =
     (if list_ex (\<lambda>w. includes_str (toLowerCase content) w) sensitiveWords then 3 else 0)"

text \<open>
  Modelled from the spec: the clamp of the missing Importance Scorer, "clamp to [1,10]";
  for an explicit importance \<open>v\<close> the persisted value is \<open>max(1, min(10, v))\<close>.
\<close>

definition clampImportance :: "int \<Rightarrow> int" where
  "clampImportance v = max 1 (min 10 v)"

text \<open>
  Modelled from the spec: the missing Importance Scorer, "given content text, content
  type, and optional explicit importance, return a final importance in [1,10]": an
  explicit importance is clamped and returned; otherwise the base score 5 and the
  adjustments are added and the sum is clamped.
\<close>

definition scoreImportance :: "string \<Rightarrow> string \<Rightarrow> int option \<Rightarrow> int" where
  "scoreImportance content ty explicit =
     (case explicit of
        Some v \<Rightarrow> clampImportance v
      | None \<Rightarrow> clampImportance (5 + lengthBonus content + typeBonus ty + sensitiveBonus content))"

text \<open>
  Modelled from the spec: the persisted entity of the missing engine, the Memory, with
  its identifier, content, type, importance, optional source and owning agent.
\<close>

record memory =
  m_id :: nat
  m_content :: string
  m_type :: string
  m_importance :: int
  m_source :: "string option"
  m_agentId :: string

text \<open>
  Modelled from the spec: the errors of the missing engine (section 7), and the values its
  operations return: the identifier of the persisted Memory, or the results of a query.
\<close>

datatype engine_error = ValidationError | BackendUnavailableError | AuthenticationError

datatype engine_value = MemoryId nat | Results "memory list"

text \<open>
  Modelled from the spec: how the missing engine reads an optional importance from the
  options object. An absent or \<^verbatim>\<open>undefined\<close> property is "not supplied", a number is the
  explicit importance, and any other value cannot be coerced (ValidationError).
\<close>

fun importanceOption :: "jsval option \<Rightarrow> engine_error + int option" where
  "importanceOption None = Inr None"
| "importanceOption (Some Undefined) = Inr None"
| "importanceOption (Some (Num v)) = Inr (Some v)"
| "importanceOption (Some other) = Inl ValidationError"

text \<open>
  Modelled from the spec: how the missing engine reads an optional text (type, source,
  agent identity) from the options object, in the same way.
\<close>

fun textOption :: "jsval option \<Rightarrow> engine_error + string option" where
  "textOption None = Inr None"
| "textOption (Some Undefined) = Inr None"
| "textOption (Some (Str t)) = Inr (Some t)"
| "textOption (Some other) = Inl ValidationError"

text \<open>
  Modelled from the spec: \<^verbatim>\<open>store\<close> of the missing Memory Engine (section 4.4), bound to
  a backend that keeps the Memories in insertion order and is always available. It cuts
  and trims the content to at most 5000 characters and rejects an empty result; the type
  (property \<^verbatim>\<open>type\<close>, as the scenarios and the wrapper write it) defaults to conversation
  and the agent identity to the one of the configuration; the importance is resolved by
  the Scorer; the identifier is the next free position. Either one Memory is added and
  its identifier returned, or nothing is persisted.
\<close>

definition memoryBridge_store ::
  "config \<Rightarrow> string \<Rightarrow> jsobject \<Rightarrow> memory list \<Rightarrow>
     (engine_error + engine_value) \<times> memory list" where
  "memoryBridge_store cfg content options db =
     (let body = sanitized content
      in if body = [] then (Inl ValidationError, db)
         else
           (case (textOption (options ''type''), importanceOption (options ''importance''),
                  textOption (options ''source''), textOption (options ''agentId'')) of
              (Inr ty, Inr explicit, Inr src, Inr agent) \<Rightarrow>
                (let contentType = (case ty of None \<Rightarrow> ''conversation'' | Some t \<Rightarrow> t);
                     m = \<lparr> m_id = length db,
                           m_content = body,
                           m_type = contentType,
                           m_importance = scoreImportance body contentType explicit,
                           m_source = src,
                           m_agentId = (case agent of None \<Rightarrow> agentId cfg | Some a \<Rightarrow> a) \<rparr>
                 in (Inr (MemoryId (length db)), db @ [m]))
            | _ \<Rightarrow> (Inl ValidationError, db)))"

text \<open>
  \<^verbatim>\<open>new MemoryBridge(config)\<close>, as far as it is modelled: the engine whose \<^verbatim>\<open>store\<close> is
  the one above. Its \<^verbatim>\<open>query\<close> is a parameter \<open>q\<close>. \<open>no_results\<close> is a query that finds
  nothing, to have a whole engine where only \<^verbatim>\<open>store\<close> is called.
\<close>

definition memoryBridge ::
  "config \<Rightarrow>
   (string \<Rightarrow> jsobject \<Rightarrow> memory list \<Rightarrow> (engine_error + engine_value) \<times> memory list) \<Rightarrow>
   (memory list, engine_error, engine_value) engine" where
  "memoryBridge cfg q = \<lparr> memory_store = memoryBridge_store cfg, memory_query = q \<rparr>"

definition no_results ::
  "string \<Rightarrow> jsobject \<Rightarrow> memory list \<Rightarrow> (engine_error + engine_value) \<times> memory list" where
  "no_results queryString options db = (Inr (Results []), db)"

text \<open>
  Modelled from the spec: the missing engine bound to a backend that cannot be opened
  (section 7, BackendUnavailableError): every operation reports the error to its caller
  and nothing is persisted.
\<close>

definition unavailable_engine :: "(memory list, engine_error, engine_value) engine" where
  "unavailable_engine =
     \<lparr> memory_store = (\<lambda>content options db. (Inl BackendUnavailableError, db)),
       memory_query = (\<lambda>queryString options db. (Inl BackendUnavailableError, db)) \<rparr>"

section \<open>The installer\<close>

text \<open>
  The file system as \<^verbatim>\<open>main\<close> sees it: absolute paths, as lists of components, to
  directories and files; the root \<open>[]\<close> is a directory. A file holds either some text or
  one of the three texts the installer writes. Permissions and device errors are not
  modelled. \<open>OPENCLAW_DIR\<close>, read from the environment when the script loads, is a
  parameter.
\<close>

datatype file_data = Text string | ConfigJson config | WrapperCode | ExampleCode

datatype node = Dir | File file_data

type_synonym filesystem = "path \<rightharpoonup> node"

datatype fs_error = ENOENT | ENOTDIR | EISDIR | EEXIST

definition existsSync :: "path \<Rightarrow> filesystem \<Rightarrow> bool" where
  "existsSync p fs = (p = [] \<or> fs p \<noteq> None)"

text \<open>
  \<^verbatim>\<open>fs.mkdirSync(p, { recursive: true })\<close>: walks \<open>p\<close> from the root and creates every
  directory that is missing; a file on the way makes it throw. \<open>walked\<close> is the part of
  the path already behind.
\<close>

fun mkdir_from :: "path \<Rightarrow> path \<Rightarrow> filesystem \<Rightarrow> fs_error + filesystem" where
  "mkdir_from walked [] fs = Inr fs"
| "mkdir_from walked (c # cs) fs =
     (case fs (walked @ [c]) of
        Some (File d) \<Rightarrow> Inl (if cs = [] then EEXIST else ENOTDIR)
      | Some Dir \<Rightarrow> mkdir_from (walked @ [c]) cs fs
      | None \<Rightarrow> mkdir_from (walked @ [c]) cs (fs(walked @ [c] \<mapsto> Dir)))"

definition mkdirSync_recursive :: "path \<Rightarrow> filesystem \<Rightarrow> fs_error + filesystem" where
  "mkdirSync_recursive p fs = mkdir_from [] p fs"

text \<open>
  Path resolution, as the operating system does it for the directory part of a path: every
  component, from the root on, must be an existing directory. The first one that is
  missing gives ENOENT, the first one that is a file gives ENOTDIR.
\<close>

fun resolve_dir :: "path \<Rightarrow> path \<Rightarrow> filesystem \<Rightarrow> fs_error option" where
  "resolve_dir walked [] fs = None"
| "resolve_dir walked (c # cs) fs =
     (case fs (walked @ [c]) of
        None \<Rightarrow> Some ENOENT
      | Some (File d) \<Rightarrow> Some ENOTDIR
      | Some Dir \<Rightarrow> resolve_dir (walked @ [c]) cs fs)"

text \<open>
  \<^verbatim>\<open>fs.writeFileSync(p, data)\<close>: the parent must resolve to a directory and \<open>p\<close> itself
  must not be one; the file is created or replaced.
\<close>

definition writeFileSync :: "path \<Rightarrow> file_data \<Rightarrow> filesystem \<Rightarrow> fs_error + filesystem" where
  "writeFileSync p d fs =
     (if p = [] then Inl EISDIR
      else case resolve_dir [] (butlast p) fs of
             Some e \<Rightarrow> Inl e
           | None \<Rightarrow> if fs p = Some Dir then Inl EISDIR else Inr (fs(p \<mapsto> File d)))"

text \<open>The lines \<^verbatim>\<open>main\<close> prints, in the order of the source.\<close>

datatype console_line =
    Banner | AlreadyInstalled | Location path
  | Installed | ConfigAt path | DatabaseAt path | WrapperAt path
  | NextSteps | Step1 | Step2 | Step3

record world =
  files :: filesystem
  console :: "console_line list"

definition console_log :: "console_line \<Rightarrow> world \<Rightarrow> world" where
  "console_log l w = w\<lparr>console := console w @ [l]\<rparr>"

text \<open>
  \<^verbatim>\<open>main()\<close>: the result is the exception that ended it, if any, and the world it
  leaves. An exception of a file system call leaves the effects of the calls before it.
\<close>

definition main :: "path \<Rightarrow> world \<Rightarrow> fs_error option \<times> world" where
  "main OPENCLAW_DIR w0 =
     (let dir = MEMORY_DIR OPENCLAW_DIR;
          w1 = console_log Banner w0
      in if existsSync dir (files w1) then
           (None, console_log (Location dir) (console_log AlreadyInstalled w1))
         else
           (case mkdirSync_recursive dir (files w1) of
              Inl e \<Rightarrow> (Some e, w1)
            | Inr fs1 \<Rightarrow>
               (let config = default_config OPENCLAW_DIR in
                case writeFileSync (path_join dir ''config.json'') (ConfigJson config) fs1 of
                  Inl e \<Rightarrow> (Some e, w1\<lparr>files := fs1\<rparr>)
                | Inr fs2 \<Rightarrow>
                   (case writeFileSync (path_join dir ''openclaw-wrapper.js'') WrapperCode fs2 of
                      Inl e \<Rightarrow> (Some e, w1\<lparr>files := fs2\<rparr>)
                    | Inr fs3 \<Rightarrow>
                       (case writeFileSync (path_join dir ''example.js'') ExampleCode fs3 of
                          Inl e \<Rightarrow> (Some e, w1\<lparr>files := fs3\<rparr>)
                        | Inr fs4 \<Rightarrow>
                           (None,
                            (w1\<lparr>files := fs4\<rparr>)\<lparr>console := console w1 @
                              [Installed, ConfigAt dir, DatabaseAt (db_path config),
                               WrapperAt dir, NextSteps, Step1, Step2, Step3]\<rparr>))))))"

section \<open>Strings: substring search, lower-casing, trimming\<close>

text \<open>
  The left-to-right search agrees with the library's notion of a contiguous sublist.
\<close>

lemma includes_str_sublist: "includes_str s w \<longleftrightarrow> sublist w s"
  by (induction s) (auto simp: sublist_Cons_right)

lemma includes_str_toLowerCase:
  assumes "includes_str s w" "toLowerCase w = w"
  shows "includes_str (toLowerCase s) w"
proof -
  from assms(1) obtain ps ss where "s = ps @ w @ ss"
    by (auto simp: includes_str_sublist sublist_def)
  then have "toLowerCase s = toLowerCase ps @ toLowerCase w @ toLowerCase ss"
    by (simp add: toLowerCase_def)
  with assms(2) show ?thesis
    by (auto simp: includes_str_sublist sublist_def)
qed

lemma slice_from_0: "slice 0 n s = take n s"
  by (simp add: slice_def)

lemma length_trim_le: "length (trim s) \<le> length s"
proof -
  have "length (trim s) \<le> length (dropWhile isWhiteSpace s)"
    unfolding trim_def using length_dropWhile_le [of isWhiteSpace "rev (dropWhile isWhiteSpace s)"]
    by simp
  also have "\<dots> \<le> length s" by (rule length_dropWhile_le)
  finally show ?thesis .
qed

lemma dropWhile_shorter: "s \<noteq> [] \<Longrightarrow> P (hd s) \<Longrightarrow> length (dropWhile P s) < length s"
  by (cases s) (auto simp: le_imp_less_Suc length_dropWhile_le)

lemma dropWhile_keeps: "s \<noteq> [] \<Longrightarrow> \<not> P (hd s) \<Longrightarrow> dropWhile P s = s"
  by (cases s) auto

lemma trim_keeps:
  assumes "s \<noteq> []" "\<not> isWhiteSpace (hd s)" "\<not> isWhiteSpace (last s)"
  shows "trim s = s"
proof -
  have "dropWhile isWhiteSpace s = s" using assms by (simp add: dropWhile_keeps)
  moreover have "dropWhile isWhiteSpace (rev s) = rev s"
    using assms by (simp add: dropWhile_keeps hd_rev)
  ultimately show ?thesis by (simp add: trim_def)
qed

lemma trim_shorter:
  assumes "s \<noteq> []" "isWhiteSpace (hd s) \<or> isWhiteSpace (last s)"
  shows "length (trim s) < length s"
proof (cases "isWhiteSpace (hd s)")
  case True
  then have "length (dropWhile isWhiteSpace s) < length s"
    using assms(1) by (simp add: dropWhile_shorter)
  moreover have "length (trim s) \<le> length (dropWhile isWhiteSpace s)"
    unfolding trim_def using length_dropWhile_le [of isWhiteSpace "rev (dropWhile isWhiteSpace s)"]
    by simp
  ultimately show ?thesis by simp
next
  case False
  then have k: "dropWhile isWhiteSpace s = s" using assms(1) by (simp add: dropWhile_keeps)
  from False assms have "isWhiteSpace (hd (rev s))" by (simp add: hd_rev)
  then have "length (dropWhile isWhiteSpace (rev s)) < length (rev s)"
    using assms(1) by (intro dropWhile_shorter) simp_all
  then show ?thesis by (simp add: trim_def k)
qed

lemma length_trim_eq_iff:
  "length (trim s) = length s \<longleftrightarrow> s = [] \<or> (\<not> isWhiteSpace (hd s) \<and> \<not> isWhiteSpace (last s))"
proof (cases "s = []")
  case True
  then show ?thesis by (simp add: trim_def)
next
  case False
  show ?thesis
  proof (cases "isWhiteSpace (hd s) \<or> isWhiteSpace (last s)")
    case True
    with False trim_shorter [of s] show ?thesis by auto
  next
    case False
    with \<open>s \<noteq> []\<close> trim_keeps [of s] show ?thesis by auto
  qed
qed

lemma take_ends:
  assumes "n \<le> length s" "0 < n"
  shows "hd (take n s) = s ! 0" "last (take n s) = s ! (n - 1)"
proof -
  from assms have ne: "take n s \<noteq> []" and ne': "s \<noteq> []" by auto
  show "hd (take n s) = s ! 0" using assms ne' by (simp add: hd_conv_nth)
  show "last (take n s) = s ! (n - 1)" using assms ne by (simp add: last_conv_nth)
qed

text \<open>What is left by \<open>trim\<close> has no white space at either end, so trimming again changes nothing.\<close>

lemma last_dropWhile: "dropWhile P xs \<noteq> [] \<Longrightarrow> last (dropWhile P xs) = last xs"
  by (induction xs) (auto split: if_splits)

lemma trim_ends:
  assumes "trim s \<noteq> []"
  shows "\<not> isWhiteSpace (hd (trim s))" "\<not> isWhiteSpace (last (trim s))"
proof -
  let ?d = "dropWhile isWhiteSpace s"
  let ?u = "dropWhile isWhiteSpace (rev ?d)"
  from assms have u: "?u \<noteq> []" by (simp add: trim_def)
  have d: "?d \<noteq> []"
  proof
    assume "?d = []"
    then have "?u = []" by (simp only: rev.simps dropWhile.simps)
    with u show False by simp
  qed
  have "last ?u = last (rev ?d)" using u by (rule last_dropWhile)
  also have "\<dots> = hd ?d" using d by (simp add: last_rev)
  finally have "hd (trim s) = hd ?d" using u by (simp add: trim_def hd_rev)
  moreover have "\<not> isWhiteSpace (hd ?d)" using d by (rule hd_dropWhile)
  ultimately show "\<not> isWhiteSpace (hd (trim s))" by simp
  have "last (trim s) = hd ?u" using u by (simp add: trim_def last_rev)
  moreover have "\<not> isWhiteSpace (hd ?u)" using u by (rule hd_dropWhile)
  ultimately show "\<not> isWhiteSpace (last (trim s))" by simp
qed

lemma trim_idem: "trim (trim s) = trim s"
proof (cases "trim s = []")
  case True
  have "trim [] = []" by (simp add: trim_def)
  with True show ?thesis by simp
next
  case False
  with trim_ends [of s] show ?thesis by (simp add: trim_keeps)
qed

lemma includes_str_set: "includes_str s w \<Longrightarrow> set w \<subseteq> set s"
  by (auto simp: includes_str_sublist dest: set_mono_sublist)

section \<open>The importance heuristic of the wrapper\<close>

lemma matches_card:
  "length (filter P highValueWords) = card {w \<in> set highValueWords. P w}"
proof -
  have "distinct highValueWords" by (simp add: highValueWords_def)
  then have "length (filter P highValueWords) = card ({w. P w} \<inter> set highValueWords)"
    by (rule distinct_length_filter)
  moreover have "{w. P w} \<inter> set highValueWords = {w \<in> set highValueWords. P w}" by blast
  ultimately show ?thesis by simp
qed

lemma calculateImportance_range:
  "5 \<le> calculateImportance userMsg r \<and> calculateImportance userMsg r \<le> 10"
  by (simp add: calculateImportance_def Let_def)

lemma highValueWords_lower: "w \<in> set highValueWords \<Longrightarrow> toLowerCase w = w"
  by (auto simp: highValueWords_def toLowerCase_def toLowerCase_char_def)

text \<open>
  A message that contains one of the eight words as written (in lower case) scores at
  least 6, whatever else it contains.
\<close>

lemma high_value_word_scores:
  assumes "w \<in> set highValueWords" "includes_str userMsg w"
  shows "6 \<le> calculateImportance userMsg r"
proof -
  let ?P = "\<lambda>w. includes_str (toLowerCase userMsg) w"
  from assms have "?P w" by (simp add: includes_str_toLowerCase highValueWords_lower)
  with assms(1) have "w \<in> set (filter ?P highValueWords)" by simp
  then have "filter ?P highValueWords \<noteq> []" by (metis empty_iff empty_set)
  then have "1 \<le> length (filter ?P highValueWords)" by (simp add: Suc_le_eq)
  then show ?thesis by (simp add: calculateImportance_def Let_def)
qed

text \<open>
  The value of the wrapper's heuristic in closed form. \<open>autoStore\<close> uses it to decide
  whether to store a message; it is not the Scorer of the engine, which \<open>store\<close> reaches
  when its options carry no importance.
\<close>

lemma calculateImportance_closed_form:
  "calculateImportance userMsg agentResp =
     min 10
       (5 + (if 100 < length userMsg then 1 else 0) + (if 300 < length userMsg then 1 else 0)
          + min 3 (int (card {w \<in> set highValueWords. sublist w (toLowerCase userMsg)}))
          + (if sublist ''security'' (toLowerCase userMsg) \<or>
                sublist ''password'' (toLowerCase userMsg) \<or>
                sublist ''api key'' (toLowerCase userMsg)
             then 3 else 0))
   \<and> 5 \<le> calculateImportance userMsg agentResp
   \<and> calculateImportance userMsg agentResp \<le> 10"
proof -
  have m: "length (filter (\<lambda>w. includes_str (toLowerCase userMsg) w) highValueWords)
        = card {w \<in> set highValueWords. sublist w (toLowerCase userMsg)}"
    by (simp add: matches_card includes_str_sublist)
  show ?thesis
    unfolding calculateImportance_def Let_def m includes_str_sublist by simp
qed

text \<open>
  C8. The computed importance depends on the user message only: two runs of
  \<open>calculateImportance\<close> on the same message and any two agent responses return the same
  value.
\<close>

theorem calculateImportance_ignores_agentResp:
  "calculateImportance userMsg agentResp1 = calculateImportance userMsg agentResp2"
  by (simp add: calculateImportance_def)

section \<open>The wrapper's store and query\<close>

lemma length_sanitized_le: "length (sanitized content) \<le> 5000"
proof -
  have "length (sanitized content) \<le> length (take 5000 content)"
    unfolding sanitized_def slice_from_0 by (rule length_trim_le)
  also have "\<dots> \<le> 5000" by simp
  finally show ?thesis .
qed

lemma length_sanitized_full:
  "length (sanitized content) = 5000 \<longleftrightarrow>
     5000 \<le> length content \<and> \<not> isWhiteSpace (content ! 0) \<and> \<not> isWhiteSpace (content ! 4999)"
proof (cases "5000 \<le> length content")
  case True
  then have len: "length (take 5000 content) = 5000" by simp
  then have ne: "take 5000 content \<noteq> []" by auto
  have ends: "hd (take 5000 content) = content ! 0" "last (take 5000 content) = content ! 4999"
    using take_ends [of 5000 content] True by simp_all
  have "length (sanitized content) = 5000 \<longleftrightarrow>
          length (trim (take 5000 content)) = length (take 5000 content)"
    by (simp only: sanitized_def slice_from_0 len)
  also have "\<dots> \<longleftrightarrow> \<not> isWhiteSpace (content ! 0) \<and> \<not> isWhiteSpace (content ! 4999)"
    unfolding length_trim_eq_iff using ne ends by simp
  finally show ?thesis using True by simp
next
  case False
  then have "length (take 5000 content) < 5000" by simp
  moreover have "length (sanitized content) \<le> length (take 5000 content)"
    unfolding sanitized_def slice_from_0 by (rule length_trim_le)
  ultimately show ?thesis using False by simp
qed

lemma sanitized_full:
  assumes "5000 \<le> length content" "\<not> isWhiteSpace (content ! 0)" "\<not> isWhiteSpace (content ! 4999)"
  shows "sanitized content = take 5000 content"
proof -
  from assms(1) have ne: "take 5000 content \<noteq> []" by auto
  have "hd (take 5000 content) = content ! 0" "last (take 5000 content) = content ! 4999"
    using take_ends [of 5000 content] assms(1) by simp_all
  with assms ne show ?thesis
    by (simp add: sanitized_def slice_from_0 trim_keeps)
qed

text \<open>
  C2 (amended). The content that \<open>store\<close> hands to the engine is the first 5000 code units
  of the input, trimmed of surrounding white space after the cut. It is never longer than
  5000. It has exactly 5000 code units if and only if the input has at least 5000 and
  neither its first nor its 5000th code unit is white space; then, for input longer than
  5000, it is the input cut to its first 5000 code units.
\<close>

theorem store_truncates_content:
  "store eng content options db = memory_store eng (sanitized content) (storeOptions options) db
   \<and> sanitized content = trim (take 5000 content)
   \<and> length (sanitized content) \<le> 5000
   \<and> (length (sanitized content) = 5000 \<longleftrightarrow>
        5000 \<le> length content \<and> \<not> isWhiteSpace (content ! 0) \<and> \<not> isWhiteSpace (content ! 4999))
   \<and> (5000 < length content \<and> \<not> isWhiteSpace (content ! 0) \<and> \<not> isWhiteSpace (content ! 4999)
        \<longrightarrow> sanitized content = take 5000 content)"
  using length_sanitized_le [of content] length_sanitized_full [of content]
    sanitized_full [of content]
  by (simp add: store_def sanitized_def slice_from_0)

theorem store_truncates_content_witness:
  "5000 < length (replicate 5001 (CHR ''a''))
   \<and> \<not> isWhiteSpace (replicate 5001 (CHR ''a'') ! 0)
   \<and> \<not> isWhiteSpace (replicate 5001 (CHR ''a'') ! 4999)
   \<and> sanitized (replicate 5001 (CHR ''a'')) = replicate 5000 (CHR ''a'')
   \<and> length (sanitized (replicate 5001 (CHR ''a''))) = 5000"
proof -
  let ?c = "replicate 5001 (CHR ''a'')"
  have h: "5000 < length ?c \<and> \<not> isWhiteSpace (?c ! 0) \<and> \<not> isWhiteSpace (?c ! 4999)"
    by (simp add: isWhiteSpace_def)
  have "sanitized ?c = take 5000 ?c"
    using store_truncates_content [of recording_engine ?c Map.empty "[]"] h by blast
  then show ?thesis using h by simp
qed

text \<open>
  C2, as the specification states it, fails on the source: the cut comes before the
  trim. A content of 5001 code units whose 5000th is a space is stored with fewer than
  5000.
\<close>

theorem store_truncates_content_counterexample:
  "5000 < length (replicate 4999 (CHR ''a'') @ '' b'')
   \<and> length (sanitized (replicate 4999 (CHR ''a'') @ '' b'')) \<noteq> 5000"
  using length_sanitized_full [of "replicate 4999 (CHR ''a'') @ '' b''"]
  by (simp add: isWhiteSpace_def nth_append)

lemma short_sanitized:
  assumes "s \<noteq> []" "length s \<le> 5000" "\<not> isWhiteSpace (hd s)" "\<not> isWhiteSpace (last s)"
  shows "sanitized s = s"
  using assms by (simp add: sanitized_def slice_from_0 trim_keeps)

lemma sanitized_decision:
  assumes "userMessage \<noteq> []" "length userMessage \<le> 4990" "\<not> isWhiteSpace (last userMessage)"
  shows "sanitized (''Decision: '' @ userMessage) = ''Decision: '' @ userMessage"
  using assms by (intro short_sanitized) (simp_all add: isWhiteSpace_def)

lemma includes_str_nonempty: "includes_str s w \<Longrightarrow> w \<noteq> [] \<Longrightarrow> s \<noteq> []"
  by (cases s) auto

text \<open>
  C6. \<open>query\<close> hands the engine the options limit 5 and days 30 when the caller's
  options do not have these properties, and the caller's value of a property it has.
\<close>

theorem query_defaults:
  "query eng queryString options db = memory_query eng queryString (queryOptions options) db
   \<and> (options ''limit'' = None \<longrightarrow> queryOptions options ''limit'' = Some (Num 5))
   \<and> (options ''days'' = None \<longrightarrow> queryOptions options ''days'' = Some (Num 30))
   \<and> (options ''limit'' = Some l \<longrightarrow> queryOptions options ''limit'' = Some l)
   \<and> (options ''days'' = Some d \<longrightarrow> queryOptions options ''days'' = Some d)"
  by (simp add: query_def queryOptions_def map_add_def)

theorem query_defaults_witness:
  "(Map.empty :: jsobject) ''limit'' = None \<and> (Map.empty :: jsobject) ''days'' = None
   \<and> queryOptions Map.empty ''limit'' = Some (Num 5)
   \<and> queryOptions Map.empty ''days'' = Some (Num 30)
   \<and> [''limit'' \<mapsto> Num 3, ''days'' \<mapsto> Num 7] ''limit'' = Some (Num 3)
   \<and> [''limit'' \<mapsto> Num 3, ''days'' \<mapsto> Num 7] ''days'' = Some (Num 7)
   \<and> queryOptions [''limit'' \<mapsto> Num 3, ''days'' \<mapsto> Num 7] ''limit'' = Some (Num 3)
   \<and> queryOptions [''limit'' \<mapsto> Num 3, ''days'' \<mapsto> Num 7] ''days'' = Some (Num 7)"
proof -
  have a: "(Map.empty :: jsobject) ''limit'' = None \<and> (Map.empty :: jsobject) ''days'' = None"
    by simp
  have b: "[''limit'' \<mapsto> Num 3, ''days'' \<mapsto> Num 7] ''limit'' = Some (Num 3)
      \<and> [''limit'' \<mapsto> Num 3, ''days'' \<mapsto> Num 7] ''days'' = Some (Num 7)"
    by simp
  have "queryOptions Map.empty ''limit'' = Some (Num 5)
      \<and> queryOptions Map.empty ''days'' = Some (Num 30)"
    using query_defaults [of recording_engine "''recent work''" Map.empty "[]"] a by blast
  moreover have "queryOptions [''limit'' \<mapsto> Num 3, ''days'' \<mapsto> Num 7] ''limit'' = Some (Num 3)
      \<and> queryOptions [''limit'' \<mapsto> Num 3, ''days'' \<mapsto> Num 7] ''days'' = Some (Num 7)"
    using query_defaults [of recording_engine "''recent work''"
        "[''limit'' \<mapsto> Num 3, ''days'' \<mapsto> Num 7]" "[]" "Num 3" "Num 7"] b by blast
  ultimately show ?thesis using a b by blast
qed

section \<open>The Importance Scorer of the engine\<close>

lemma sensitiveBonus_sublist:
  "sensitiveBonus content =
     (if sublist ''security'' (toLowerCase content) \<or> sublist ''password'' (toLowerCase content) \<or>
         sublist ''api key'' (toLowerCase content)
      then 3 else 0)"
  by (simp add: sensitiveBonus_def sensitiveWords_def includes_str_sublist)

lemma typeBonus_cases:
  "typeBonus ty =
     (if ty = ''insight'' then 2 else 0) + (if ty = ''error'' then 1 else 0)
       + (if ty = ''goal'' then 2 else 0)"
  by (simp add: typeBonus_def)

lemma clampImportance_range: "1 \<le> clampImportance v \<and> clampImportance v \<le> 10"
  by (simp add: clampImportance_def)

lemma scoreImportance_range:
  "1 \<le> scoreImportance content ty explicit \<and> scoreImportance content ty explicit \<le> 10"
  using clampImportance_range by (simp add: scoreImportance_def split: option.split)

section \<open>The wrapper's store, run through the engine\<close>

lemma sanitized_idem: "sanitized (sanitized content) = sanitized content"
proof -
  have "length (trim (take 5000 content)) \<le> 5000"
    using length_trim_le [of "take 5000 content"] by simp
  then have "take 5000 (trim (take 5000 content)) = trim (take 5000 content)" by simp
  then show ?thesis by (simp add: sanitized_def slice_from_0 trim_idem)
qed

lemma storeOptions_lookup:
  "storeOptions options ''type'' = options ''type''"
  "storeOptions options ''importance'' = options ''importance''"
  "storeOptions options ''source'' =
     (case options ''source'' of None \<Rightarrow> Some (Str ''openclaw-chat'') | Some v \<Rightarrow> Some v)"
  "storeOptions options ''agentId'' =
     (case options ''agentId'' of None \<Rightarrow> Some (Str ''OpenClaw'') | Some v \<Rightarrow> Some v)"
  by (simp_all add: storeOptions_def map_add_def split: option.split)

text \<open>
  The Memory that the wrapper's \<open>store\<close> persists through the engine, for a content that is
  not empty after the cut and trim and options whose values the engine can read.
\<close>

lemma store_memoryBridge:
  assumes "sanitized content \<noteq> []"
    and "textOption (options ''type'') = Inr ty"
    and "importanceOption (options ''importance'') = Inr explicit"
    and "textOption (options ''source'') = Inr src"
    and "textOption (options ''agentId'') = Inr agent"
  shows "store (memoryBridge cfg q) content options db =
    (Inr (MemoryId (length db)),
     db @ [\<lparr> m_id = length db,
             m_content = sanitized content,
             m_type = (case ty of None \<Rightarrow> ''conversation'' | Some t \<Rightarrow> t),
             m_importance = scoreImportance (sanitized content)
                              (case ty of None \<Rightarrow> ''conversation'' | Some t \<Rightarrow> t) explicit,
             m_source = (case options ''source'' of None \<Rightarrow> Some ''openclaw-chat''
                                                    | Some v \<Rightarrow> src),
             m_agentId = (case options ''agentId'' of
                            None \<Rightarrow> ''OpenClaw''
                          | Some v \<Rightarrow> (case agent of None \<Rightarrow> agentId cfg | Some a \<Rightarrow> a)) \<rparr>])"
proof -
  have s: "textOption (storeOptions options ''source'') =
      Inr (case options ''source'' of None \<Rightarrow> Some ''openclaw-chat'' | Some v \<Rightarrow> src)"
    using assms(4) by (auto simp: storeOptions_lookup split: option.split)
  have a: "textOption (storeOptions options ''agentId'') =
      Inr (case options ''agentId'' of None \<Rightarrow> Some ''OpenClaw'' | Some v \<Rightarrow> agent)"
    using assms(5) by (auto simp: storeOptions_lookup split: option.split)
  show ?thesis
    using assms(1,2,3) s a
    by (simp add: store_def memoryBridge_def memoryBridge_store_def sanitized_idem
        storeOptions_lookup(1,2) Let_def split: option.split)
qed

text \<open>Whatever the options are, \<open>store\<close> through the engine adds one Memory or none.\<close>

lemma store_memoryBridge_cases:
  "snd (store (memoryBridge cfg q) content options db) = db \<or>
   (\<exists>m. snd (store (memoryBridge cfg q) content options db) = db @ [m] \<and>
        1 \<le> m_importance m \<and> m_importance m \<le> 10)"
  using scoreImportance_range
  by (auto simp: store_def memoryBridge_def memoryBridge_store_def Let_def
      split: sum.split option.split)

text \<open>
  C1. When no explicit importance is supplied, the importance that the Scorer computes is
  the base score 5 plus 1 if the content is longer than 200 characters (the length adds at
  most 1), plus 2 for type insight, 1 for type error, 2 for type goal, plus 3 if the
  lower-cased content contains one of the signal words, the sum clamped to the range 1 to
  10. It is the importance of the Memory that the wrapper's \<open>store\<close> persists when its
  options carry no importance; the Scorer sees the content after the cut and trim.
\<close>

theorem scoreImportance_formula:
  "scoreImportance content ty None =
     max 1 (min 10
       (5 + (if 200 < length content then 1 else 0)
          + (if ty = ''insight'' then 2 else 0)
          + (if ty = ''error'' then 1 else 0)
          + (if ty = ''goal'' then 2 else 0)
          + (if sublist ''security'' (toLowerCase content) \<or>
                sublist ''password'' (toLowerCase content) \<or>
                sublist ''api key'' (toLowerCase content)
             then 3 else 0)))
   \<and> 0 \<le> lengthBonus content \<and> lengthBonus content \<le> 1
   \<and> (sanitized content \<noteq> []
        \<and> textOption (options ''type'') = Inr ty'
        \<and> importanceOption (options ''importance'') = Inr None
        \<and> textOption (options ''source'') = Inr src
        \<and> textOption (options ''agentId'') = Inr agent
       \<longrightarrow> map m_importance (snd (store (memoryBridge cfg q) content options db))
           = map m_importance db
             @ [scoreImportance (sanitized content)
                  (case ty' of None \<Rightarrow> ''conversation'' | Some t \<Rightarrow> t) None])"
proof -
  have f: "scoreImportance content ty None =
     max 1 (min 10
       (5 + (if 200 < length content then 1 else 0)
          + (if ty = ''insight'' then 2 else 0)
          + (if ty = ''error'' then 1 else 0)
          + (if ty = ''goal'' then 2 else 0)
          + (if sublist ''security'' (toLowerCase content) \<or>
                sublist ''password'' (toLowerCase content) \<or>
                sublist ''api key'' (toLowerCase content)
             then 3 else 0)))"
    unfolding scoreImportance_def clampImportance_def sensitiveBonus_sublist typeBonus_cases
      lengthBonus_def by simp
  have l: "0 \<le> lengthBonus content \<and> lengthBonus content \<le> 1"
    by (simp add: lengthBonus_def)
  have s: "map m_importance (snd (store (memoryBridge cfg q) content options db))
           = map m_importance db
             @ [scoreImportance (sanitized content)
                  (case ty' of None \<Rightarrow> ''conversation'' | Some t \<Rightarrow> t) None]"
    if "sanitized content \<noteq> []" "textOption (options ''type'') = Inr ty'"
      "importanceOption (options ''importance'') = Inr None"
      "textOption (options ''source'') = Inr src" "textOption (options ''agentId'') = Inr agent"
    using store_memoryBridge [OF that, of cfg q db] by simp
  from f l s show ?thesis by blast
qed

theorem scoreImportance_formula_witness:
  "sanitized ''Fix the login error'' \<noteq> []
   \<and> textOption ([''type'' \<mapsto> Str ''error''] ''type'') = Inr (Some ''error'')
   \<and> importanceOption ([''type'' \<mapsto> Str ''error''] ''importance'') = Inr None
   \<and> textOption ([''type'' \<mapsto> Str ''error''] ''source'') = Inr None
   \<and> textOption ([''type'' \<mapsto> Str ''error''] ''agentId'') = Inr None
   \<and> map m_importance
        (snd (store (memoryBridge (default_config []) no_results) ''Fix the login error''
               [''type'' \<mapsto> Str ''error''] []))
      = [6]"
proof -
  let ?c = "''Fix the login error''"
  let ?o = "[''type'' \<mapsto> Str ''error'']"
  have c: "sanitized ?c = ?c" by (rule short_sanitized) (simp_all add: isWhiteSpace_def)
  have h: "sanitized ?c \<noteq> [] \<and> textOption (?o ''type'') = Inr (Some ''error'')
      \<and> importanceOption (?o ''importance'') = Inr None
      \<and> textOption (?o ''source'') = Inr None \<and> textOption (?o ''agentId'') = Inr None"
    by (simp add: c)
  have v: "scoreImportance ?c ''error'' None = 6"
    by (simp add: scoreImportance_def clampImportance_def lengthBonus_def typeBonus_def
        sensitiveBonus_def sensitiveWords_def toLowerCase_def toLowerCase_char_def
        char_of_eq_iff)
  show ?thesis
    using scoreImportance_formula [of ?c "''error''" ?o "Some ''error''" None None
        "default_config []" no_results "[]"]
    by (simp add: c v)
qed

text \<open>
  C3. Storing "User prefers dark mode" with type preference and no importance persists a
  Memory of importance exactly 5: the content is not longer than 200, the type is none of
  insight, error and goal, and no signal word occurs, so no adjustment applies.
\<close>

theorem dark_mode_scenario:
  "lengthBonus ''User prefers dark mode'' = 0
   \<and> typeBonus ''preference'' = 0
   \<and> sensitiveBonus ''User prefers dark mode'' = 0
   \<and> scoreImportance ''User prefers dark mode'' ''preference'' None = 5
   \<and> store (memoryBridge cfg q) ''User prefers dark mode'' [''type'' \<mapsto> Str ''preference''] db
      = (Inr (MemoryId (length db)),
         db @ [\<lparr> m_id = length db, m_content = ''User prefers dark mode'',
                 m_type = ''preference'', m_importance = 5,
                 m_source = Some ''openclaw-chat'', m_agentId = ''OpenClaw'' \<rparr>])"
proof -
  let ?c = "''User prefers dark mode''"
  let ?o = "[''type'' \<mapsto> Str ''preference'']"
  have c: "sanitized ?c = ?c" by (rule short_sanitized) (simp_all add: isWhiteSpace_def)
  have b: "lengthBonus ?c = 0 \<and> typeBonus ''preference'' = 0 \<and> sensitiveBonus ?c = 0"
    by (simp add: lengthBonus_def typeBonus_def sensitiveBonus_def sensitiveWords_def
        toLowerCase_def toLowerCase_char_def char_of_eq_iff)
  then have v: "scoreImportance ?c ''preference'' None = 5"
    by (simp add: scoreImportance_def clampImportance_def)
  have "store (memoryBridge cfg q) ?c ?o db = (Inr (MemoryId (length db)),
         db @ [\<lparr> m_id = length db, m_content = ?c,
                 m_type = ''preference'', m_importance = 5,
                 m_source = Some ''openclaw-chat'', m_agentId = ''OpenClaw'' \<rparr>])"
    using store_memoryBridge [of ?c ?o "Some ''preference''" None None None cfg q db]
    by (simp add: c v)
  with b v show ?thesis by blast
qed

text \<open>
  C4. Storing "My API key leaked, this is a critical security issue" with no importance:
  the adjustment for a signal word is 3 and the one for the length is 0, so for every
  type the computed importance is the minimum of 10 and 8 plus the adjustment of the type,
  at least 8 and at most 10. With no type given, the Memory persisted has importance 8.
\<close>

theorem api_key_scenario:
  "sensitiveBonus ''My API key leaked, this is a critical security issue'' = 3
   \<and> lengthBonus ''My API key leaked, this is a critical security issue'' = 0
   \<and> scoreImportance ''My API key leaked, this is a critical security issue'' ty None
       = min 10 (5 + typeBonus ty + 3)
   \<and> 8 \<le> scoreImportance ''My API key leaked, this is a critical security issue'' ty None
   \<and> scoreImportance ''My API key leaked, this is a critical security issue'' ty None \<le> 10
   \<and> store (memoryBridge cfg q) ''My API key leaked, this is a critical security issue''
        Map.empty db
      = (Inr (MemoryId (length db)),
         db @ [\<lparr> m_id = length db,
                 m_content = ''My API key leaked, this is a critical security issue'',
                 m_type = ''conversation'', m_importance = 8,
                 m_source = Some ''openclaw-chat'', m_agentId = ''OpenClaw'' \<rparr>])"
proof -
  let ?c = "''My API key leaked, this is a critical security issue''"
  have c: "sanitized ?c = ?c" by (rule short_sanitized) (simp_all add: isWhiteSpace_def)
  have b: "sensitiveBonus ?c = 3 \<and> lengthBonus ?c = 0"
    by (simp add: lengthBonus_def sensitiveBonus_def sensitiveWords_def
        toLowerCase_def toLowerCase_char_def char_of_eq_iff)
  have t: "0 \<le> typeBonus ty" by (simp add: typeBonus_def)
  have v: "scoreImportance ?c ty None = min 10 (5 + typeBonus ty + 3)"
    using b t by (simp add: scoreImportance_def clampImportance_def)
  have r: "8 \<le> scoreImportance ?c ty None \<and> scoreImportance ?c ty None \<le> 10"
    using t unfolding v by simp
  have v8: "scoreImportance ?c ''conversation'' None = 8"
    using b by (simp add: scoreImportance_def clampImportance_def typeBonus_def)
  have "store (memoryBridge cfg q) ?c Map.empty db = (Inr (MemoryId (length db)),
         db @ [\<lparr> m_id = length db, m_content = ?c,
                 m_type = ''conversation'', m_importance = 8,
                 m_source = Some ''openclaw-chat'', m_agentId = ''OpenClaw'' \<rparr>])"
    using store_memoryBridge [of ?c Map.empty None None None None cfg q db]
    by (simp add: c v8)
  with b v r show ?thesis by blast
qed

text \<open>
  C5. Every importance the Scorer returns, computed or from the caller, lies in the range
  1 to 10, and so does the value of the wrapper's heuristic. An explicit importance \<open>v\<close>
  is persisted as \<open>max(1, min(10, v))\<close>: a value out of range is clamped and the call
  succeeds. Every Memory that \<open>store\<close> adds has an importance in the range.
\<close>

theorem importance_clamped:
  "1 \<le> scoreImportance content ty explicit \<and> scoreImportance content ty explicit \<le> 10
   \<and> scoreImportance content ty (Some v) = max 1 (min 10 v)
   \<and> 1 \<le> calculateImportance userMsg agentResp \<and> calculateImportance userMsg agentResp \<le> 10
   \<and> (list_all (\<lambda>m. 1 \<le> m_importance m \<and> m_importance m \<le> 10) db \<longrightarrow>
        list_all (\<lambda>m. 1 \<le> m_importance m \<and> m_importance m \<le> 10)
          (snd (store (memoryBridge cfg q) content options db)))
   \<and> (sanitized content \<noteq> []
        \<and> textOption (options ''type'') = Inr ty'
        \<and> textOption (options ''source'') = Inr src
        \<and> textOption (options ''agentId'') = Inr agent
       \<longrightarrow> fst (store (memoryBridge cfg q) content (options(''importance'' \<mapsto> Num v)) db)
             = Inr (MemoryId (length db))
           \<and> map m_importance
               (snd (store (memoryBridge cfg q) content (options(''importance'' \<mapsto> Num v)) db))
             = map m_importance db @ [max 1 (min 10 v)])"
proof -
  have a: "1 \<le> scoreImportance content ty explicit \<and> scoreImportance content ty explicit \<le> 10"
    by (rule scoreImportance_range)
  have b: "scoreImportance content ty (Some v) = max 1 (min 10 v)"
    by (simp add: scoreImportance_def clampImportance_def)
  have c: "1 \<le> calculateImportance userMsg agentResp \<and> calculateImportance userMsg agentResp \<le> 10"
    using calculateImportance_range [of userMsg agentResp] by simp
  have d: "list_all (\<lambda>m. 1 \<le> m_importance m \<and> m_importance m \<le> 10)
          (snd (store (memoryBridge cfg q) content options db))"
    if "list_all (\<lambda>m. 1 \<le> m_importance m \<and> m_importance m \<le> 10) db"
    using store_memoryBridge_cases [of cfg q content options db] that by auto
  have e: "fst (store (memoryBridge cfg q) content (options(''importance'' \<mapsto> Num v)) db)
             = Inr (MemoryId (length db))
           \<and> map m_importance
               (snd (store (memoryBridge cfg q) content (options(''importance'' \<mapsto> Num v)) db))
             = map m_importance db @ [max 1 (min 10 v)]"
    if "sanitized content \<noteq> []" "textOption (options ''type'') = Inr ty'"
      "textOption (options ''source'') = Inr src" "textOption (options ''agentId'') = Inr agent"
    using store_memoryBridge [of content "options(''importance'' \<mapsto> Num v)" ty' "Some v" src
        agent cfg q db] that
    by (simp add: scoreImportance_def clampImportance_def)
  from a b c d e show ?thesis by blast
qed

theorem importance_clamped_witness:
  "list_all (\<lambda>m. 1 \<le> m_importance m \<and> m_importance m \<le> 10) []
   \<and> sanitized ''remember this'' \<noteq> []
   \<and> textOption ((Map.empty :: jsobject) ''type'') = Inr None
   \<and> textOption ((Map.empty :: jsobject) ''source'') = Inr None
   \<and> textOption ((Map.empty :: jsobject) ''agentId'') = Inr None
   \<and> fst (store (memoryBridge (default_config []) no_results) ''remember this''
            [''importance'' \<mapsto> Num 50] [])
      = Inr (MemoryId 0)
   \<and> map m_importance
        (snd (store (memoryBridge (default_config []) no_results) ''remember this''
               [''importance'' \<mapsto> Num 50] []))
      = [10]
   \<and> list_all (\<lambda>m. 1 \<le> m_importance m \<and> m_importance m \<le> 10)
        (snd (store (memoryBridge (default_config []) no_results) ''remember this''
               [''importance'' \<mapsto> Num 50] []))"
proof -
  have c: "sanitized ''remember this'' = ''remember this''"
    by (rule short_sanitized) (simp_all add: isWhiteSpace_def)
  show ?thesis
    using importance_clamped [of "''remember this''" "''conversation''" None 50 "''remember this''"
        Undefined "[]" "default_config []" no_results Map.empty None None None]
      importance_clamped [of "''remember this''" "''conversation''" None 50 "''remember this''"
        Undefined "[]" "default_config []" no_results
        "[''importance'' \<mapsto> Num 50]" None None None]
    by (simp add: c)
qed

text \<open>
  C7, as the specification states it, fails on the source: the wrapper does not read the
  agent identity of the configuration. With a configuration whose identity is "Alice",
  \<open>store\<close> without an \<open>agentId\<close> still hands "OpenClaw" to the engine, and the Memory
  belongs to "OpenClaw"; called without the wrapper, the engine assigns "Alice".
\<close>

theorem store_default_agentId_counterexample:
  "map m_agentId
     (snd (store (memoryBridge ((default_config [])\<lparr>agentId := ''Alice''\<rparr>) no_results)
            ''note'' Map.empty []))
   = [''OpenClaw'']
   \<and> map m_agentId
       (snd (store (memoryBridge ((default_config [])\<lparr>agentId := ''Alice''\<rparr>) no_results)
              ''note'' Map.empty []))
     \<noteq> [agentId ((default_config [])\<lparr>agentId := ''Alice''\<rparr>)]
   \<and> storeOptions Map.empty ''agentId''
       \<noteq> Some (Str (agentId ((default_config [])\<lparr>agentId := ''Alice''\<rparr>)))
   \<and> map m_agentId
       (snd (memoryBridge_store ((default_config [])\<lparr>agentId := ''Alice''\<rparr>)
              ''note'' Map.empty []))
     = [''Alice'']"
proof -
  have c: "sanitized ''note'' = ''note''"
    by (rule short_sanitized) (simp_all add: isWhiteSpace_def)
  show ?thesis
    using store_memoryBridge [of "''note''" Map.empty None None None None
        "(default_config [])\<lparr>agentId := ''Alice''\<rparr>" no_results "[]"]
    by (simp add: c storeOptions_lookup memoryBridge_store_def Let_def)
qed

text \<open>
  C7 (amended). When the caller's options have no \<open>agentId\<close>, \<open>store\<close> assigns the
  fixed identity "OpenClaw" to the persisted Memory, whatever the configuration says;
  "OpenClaw" is the identity that the installer writes to \<^verbatim>\<open>config.json\<close>. An
  \<open>agentId\<close> of the caller replaces it.
\<close>

theorem store_fixed_agentId:
  "store eng content options db = memory_store eng (sanitized content) (storeOptions options) db
   \<and> (options ''agentId'' = None \<longrightarrow> storeOptions options ''agentId'' = Some (Str ''OpenClaw''))
   \<and> (options ''agentId'' = Some a \<longrightarrow> storeOptions options ''agentId'' = Some a)
   \<and> agentId (default_config OPENCLAW_DIR) = ''OpenClaw''
   \<and> (sanitized content \<noteq> []
        \<and> textOption (options ''type'') = Inr ty
        \<and> importanceOption (options ''importance'') = Inr explicit
        \<and> textOption (options ''source'') = Inr src
        \<and> options ''agentId'' = None
       \<longrightarrow> map m_agentId (snd (store (memoryBridge cfg q) content options ms))
           = map m_agentId ms @ [''OpenClaw''])
   \<and> (sanitized content \<noteq> []
        \<and> textOption (options ''type'') = Inr ty
        \<and> importanceOption (options ''importance'') = Inr explicit
        \<and> textOption (options ''source'') = Inr src
        \<and> options ''agentId'' = Some (Str a')
       \<longrightarrow> map m_agentId (snd (store (memoryBridge cfg q) content options ms))
           = map m_agentId ms @ [a'])"
proof -
  have w: "store eng content options db
      = memory_store eng (sanitized content) (storeOptions options) db"
    by (simp add: store_def)
  have d: "storeOptions options ''agentId'' = Some (Str ''OpenClaw'')"
    if "options ''agentId'' = None"
    using that by (simp add: storeOptions_lookup)
  have o: "storeOptions options ''agentId'' = Some a" if "options ''agentId'' = Some a"
    using that by (simp add: storeOptions_lookup)
  have c: "agentId (default_config OPENCLAW_DIR) = ''OpenClaw''"
    by (simp add: default_config_def)
  have e1: "map m_agentId (snd (store (memoryBridge cfg q) content options ms))
           = map m_agentId ms @ [''OpenClaw'']"
    if "sanitized content \<noteq> []" "textOption (options ''type'') = Inr ty"
      "importanceOption (options ''importance'') = Inr explicit"
      "textOption (options ''source'') = Inr src" "options ''agentId'' = None"
    using store_memoryBridge [of content options ty explicit src None cfg q ms] that by simp
  have e2: "map m_agentId (snd (store (memoryBridge cfg q) content options ms))
           = map m_agentId ms @ [a']"
    if "sanitized content \<noteq> []" "textOption (options ''type'') = Inr ty"
      "importanceOption (options ''importance'') = Inr explicit"
      "textOption (options ''source'') = Inr src" "options ''agentId'' = Some (Str a')"
    using store_memoryBridge [of content options ty explicit src "Some a'" cfg q ms] that by simp
  from w d o c e1 e2 show ?thesis by blast
qed

theorem store_fixed_agentId_witness:
  "(Map.empty :: jsobject) ''agentId'' = None
   \<and> storeOptions Map.empty ''agentId'' = Some (Str ''OpenClaw'')
   \<and> [''agentId'' \<mapsto> Str ''my-agent''] ''agentId'' = Some (Str ''my-agent'')
   \<and> storeOptions [''agentId'' \<mapsto> Str ''my-agent''] ''agentId'' = Some (Str ''my-agent'')
   \<and> sanitized ''note'' \<noteq> []
   \<and> map m_agentId
        (snd (store (memoryBridge ((default_config [])\<lparr>agentId := ''Alice''\<rparr>) no_results)
               ''note'' Map.empty []))
      = [''OpenClaw'']
   \<and> map m_agentId
        (snd (store (memoryBridge ((default_config [])\<lparr>agentId := ''Alice''\<rparr>) no_results)
               ''note'' [''agentId'' \<mapsto> Str ''my-agent''] []))
      = [''my-agent'']"
proof -
  have c: "sanitized ''note'' = ''note''"
    by (rule short_sanitized) (simp_all add: isWhiteSpace_def)
  show ?thesis
    using store_fixed_agentId [of recording_engine "''note''" Map.empty "[]" "Str ''x''" "[]"
        None None None "(default_config [])\<lparr>agentId := ''Alice''\<rparr>" no_results "[]" "''x''"]
      store_fixed_agentId [of recording_engine "''note''" "[''agentId'' \<mapsto> Str ''my-agent'']" "[]"
        "Str ''my-agent''" "[]"
        None None None "(default_config [])\<lparr>agentId := ''Alice''\<rparr>" no_results "[]"
        "''my-agent''"]
    by (simp add: c)
qed

section \<open>Automatic storing\<close>

text \<open>
  A decision word in the message is also a high-value word, so such a message always
  reaches the threshold of 6.
\<close>

lemma decision_word_scores:
  "includes_str userMessage ''decide'' \<or> includes_str userMessage ''build'' \<or>
   includes_str userMessage ''create'' \<Longrightarrow> 6 \<le> calculateImportance userMessage r"
  using high_value_word_scores [of "''decide''" userMessage r]
    high_value_word_scores [of "''build''" userMessage r]
    high_value_word_scores [of "''create''" userMessage r]
  by (auto simp: highValueWords_def)

lemma store_decision_call:
  "store eng content [''type'' \<mapsto> Str ''decision'', ''importance'' \<mapsto> Num 9] db =
     memory_store eng (sanitized content)
       [''agentId'' \<mapsto> Str ''OpenClaw'', ''source'' \<mapsto> Str ''openclaw-chat'',
        ''type'' \<mapsto> Str ''decision'', ''importance'' \<mapsto> Num 9] db"
  by (simp add: store_def storeOptions_def)

text \<open>
  C9, as the specification states it, fails on the source in two ways. For the message
  "build it " (with a space at its end) the importance is 6 and the word "build" occurs,
  but the content of the second Memory is "Decision: build it", not the message prefixed
  with "Decision: ": \<open>store\<close> cuts and trims it. And when the backend is unavailable, the
  first \<open>store\<close> throws and no second Memory is stored.
\<close>

theorem autoStore_effects_counterexample:
  "6 \<le> calculateImportance ''build it '' Undefined
   \<and> includes_str ''build it '' ''build''
   \<and> map fst (snd (autoStore recording_engine ''build it '' Undefined []))
      = [''build it'', ''Decision: build it'']
   \<and> map m_content
        (snd (autoStore (memoryBridge (default_config []) no_results) ''build it '' Undefined []))
      = [''build it'', ''Decision: build it'']
   \<and> ''Decision: build it'' \<noteq> ''Decision: '' @ ''build it ''
   \<and> 6 \<le> calculateImportance ''build it'' Undefined
   \<and> includes_str ''build it'' ''build''
   \<and> autoStore unavailable_engine ''build it'' Undefined [] = (Inl BackendUnavailableError, [])"
proof -
  have i: "calculateImportance ''build it '' Undefined = 6"
    by (simp add: calculateImportance_def highValueWords_def toLowerCase_def
        toLowerCase_char_def char_of_eq_iff)
  have i2: "calculateImportance ''build it'' Undefined = 6"
    by (simp add: calculateImportance_def highValueWords_def toLowerCase_def
        toLowerCase_char_def char_of_eq_iff)
  have s1: "sanitized ''build it '' = ''build it''"
    by (simp add: sanitized_def slice_def trim_def isWhiteSpace_def)
  have s2: "sanitized ''Decision: build it '' = ''Decision: build it''"
    by (simp add: sanitized_def slice_def trim_def isWhiteSpace_def)
  have s3: "sanitized ''build it'' = ''build it''"
    by (simp add: sanitized_def slice_def trim_def isWhiteSpace_def)
  have s4: "sanitized ''Decision: build it'' = ''Decision: build it''"
    by (simp add: sanitized_def slice_def trim_def isWhiteSpace_def)
  have r: "map fst (snd (autoStore recording_engine ''build it '' Undefined []))
      = [''build it'', ''Decision: build it'']"
    by (simp add: autoStore_def store_def recording_engine_def i s1 s2)
  have e: "map m_content
        (snd (autoStore (memoryBridge (default_config []) no_results) ''build it '' Undefined []))
      = [''build it'', ''Decision: build it'']"
    by (simp add: autoStore_def store_def memoryBridge_def memoryBridge_store_def
        storeOptions_def i s1 s2 s3 s4 Let_def)
  have u: "autoStore unavailable_engine ''build it'' Undefined []
      = (Inl BackendUnavailableError, [])"
    by (simp add: autoStore_def store_def unavailable_engine_def i2)
  show ?thesis using i i2 r e u by simp
qed

text \<open>
  C9 (amended). When the computed importance of the user message is below 6, \<open>autoStore\<close>
  makes no call of the engine and leaves its state as it was. When the importance is at
  least 6 and the first \<open>store\<close> throws, \<open>autoStore\<close> ends with that error and stores
  nothing more. When the importance is at least 6, the message contains "decide", "build"
  or "create", and the first \<open>store\<close> has returned, \<open>autoStore\<close> calls \<open>store\<close> a second
  time, with type decision, importance 9 and the message prefixed with "Decision: " as
  content; what reaches the engine is that content cut to 5000 characters and trimmed,
  which is the prefixed message itself when the message has at most 4990 characters and
  does not end in white space.
\<close>

theorem autoStore_effects:
  "(calculateImportance userMessage agentResponse < 6 \<longrightarrow>
      autoStore eng userMessage agentResponse db = (Inr (), db))
   \<and> (6 \<le> calculateImportance userMessage agentResponse
       \<and> (includes_str userMessage ''decide'' \<or> includes_str userMessage ''build'' \<or>
          includes_str userMessage ''create'')
       \<and> store eng userMessage
            [''type'' \<mapsto> Str (if 8 \<le> calculateImportance userMessage agentResponse
                                then ''insight'' else ''conversation''),
             ''importance'' \<mapsto> Num (calculateImportance userMessage agentResponse)] db
          = (Inr v, db1)
       \<longrightarrow>
      autoStore eng userMessage agentResponse db =
        (case store eng (''Decision: '' @ userMessage)
                [''type'' \<mapsto> Str ''decision'', ''importance'' \<mapsto> Num 9] db1 of
           (Inl e, db2) \<Rightarrow> (Inl e, db2)
         | (Inr _, db2) \<Rightarrow> (Inr (), db2))
      \<and> store eng (''Decision: '' @ userMessage)
            [''type'' \<mapsto> Str ''decision'', ''importance'' \<mapsto> Num 9] db1 =
          memory_store eng (sanitized (''Decision: '' @ userMessage))
            [''agentId'' \<mapsto> Str ''OpenClaw'', ''source'' \<mapsto> Str ''openclaw-chat'',
             ''type'' \<mapsto> Str ''decision'', ''importance'' \<mapsto> Num 9] db1)
   \<and> (6 \<le> calculateImportance userMessage agentResponse
       \<and> store eng userMessage
            [''type'' \<mapsto> Str (if 8 \<le> calculateImportance userMessage agentResponse
                                then ''insight'' else ''conversation''),
             ''importance'' \<mapsto> Num (calculateImportance userMessage agentResponse)] db
          = (Inl err, db1)
       \<longrightarrow> autoStore eng userMessage agentResponse db = (Inl err, db1))
   \<and> ((includes_str userMessage ''decide'' \<or> includes_str userMessage ''build'' \<or>
        includes_str userMessage ''create'')
       \<and> length userMessage \<le> 4990 \<and> \<not> isWhiteSpace (last userMessage)
       \<longrightarrow> sanitized (''Decision: '' @ userMessage) = ''Decision: '' @ userMessage)"
proof -
  have a: "autoStore eng userMessage agentResponse db = (Inr (), db)"
    if "calculateImportance userMessage agentResponse < 6"
    using that by (simp add: autoStore_def Let_def)
  have b: "autoStore eng userMessage agentResponse db =
        (case store eng (''Decision: '' @ userMessage)
                [''type'' \<mapsto> Str ''decision'', ''importance'' \<mapsto> Num 9] db1 of
           (Inl e, db2) \<Rightarrow> (Inl e, db2)
         | (Inr _, db2) \<Rightarrow> (Inr (), db2))"
    if "6 \<le> calculateImportance userMessage agentResponse"
      "includes_str userMessage ''decide'' \<or> includes_str userMessage ''build'' \<or>
          includes_str userMessage ''create''"
      "store eng userMessage
            [''type'' \<mapsto> Str (if 8 \<le> calculateImportance userMessage agentResponse
                                then ''insight'' else ''conversation''),
             ''importance'' \<mapsto> Num (calculateImportance userMessage agentResponse)] db
          = (Inr v, db1)"
    using that by (simp add: autoStore_def Let_def)
  note c = store_decision_call [of eng "''Decision: '' @ userMessage" db1]
  have d: "autoStore eng userMessage agentResponse db = (Inl err, db1)"
    if "6 \<le> calculateImportance userMessage agentResponse"
      "store eng userMessage
            [''type'' \<mapsto> Str (if 8 \<le> calculateImportance userMessage agentResponse
                                then ''insight'' else ''conversation''),
             ''importance'' \<mapsto> Num (calculateImportance userMessage agentResponse)] db
          = (Inl err, db1)"
    using that by (simp add: autoStore_def Let_def)
  have e: "sanitized (''Decision: '' @ userMessage) = ''Decision: '' @ userMessage"
    if "includes_str userMessage ''decide'' \<or> includes_str userMessage ''build'' \<or>
        includes_str userMessage ''create''"
      "length userMessage \<le> 4990" "\<not> isWhiteSpace (last userMessage)"
  proof -
    from that(1) have "userMessage \<noteq> []" by (auto dest: includes_str_nonempty)
    then show ?thesis using that(2,3) by (rule sanitized_decision)
  qed
  from a b c d e show ?thesis by blast
qed

theorem autoStore_effects_witness:
  "calculateImportance ''hello there'' Undefined < 6
   \<and> autoStore recording_engine ''hello there'' Undefined [] = (Inr (), [])
   \<and> 6 \<le> calculateImportance ''build it'' Undefined
   \<and> includes_str ''build it'' ''build''
   \<and> length ''build it'' \<le> 4990 \<and> \<not> isWhiteSpace (last ''build it'')
   \<and> fst (store (memoryBridge (default_config []) no_results) ''build it''
            [''type'' \<mapsto> Str ''conversation'', ''importance'' \<mapsto> Num 6] [])
      = Inr (MemoryId 0)
   \<and> map (\<lambda>m. (m_content m, m_type m, m_importance m))
        (snd (autoStore (memoryBridge (default_config []) no_results) ''build it'' Undefined []))
      = [(''build it'', ''conversation'', 6), (''Decision: build it'', ''decision'', 9)]
   \<and> store unavailable_engine ''build it''
        [''type'' \<mapsto> Str ''conversation'', ''importance'' \<mapsto> Num 6] []
      = (Inl BackendUnavailableError, [])
   \<and> autoStore unavailable_engine ''build it'' Undefined [] = (Inl BackendUnavailableError, [])"
proof -
  let ?E = "memoryBridge (default_config []) no_results"
  let ?o1 = "[''type'' \<mapsto> Str ''conversation'', ''importance'' \<mapsto> Num 6]"
  let ?o2 = "[''type'' \<mapsto> Str ''decision'', ''importance'' \<mapsto> Num 9]"
  let ?m1 = "\<lparr> m_id = 0, m_content = ''build it'', m_type = ''conversation'', m_importance = 6,
      m_source = Some ''openclaw-chat'', m_agentId = ''OpenClaw'' \<rparr>"
  have i1: "calculateImportance ''hello there'' Undefined = 5"
    by (simp add: calculateImportance_def highValueWords_def toLowerCase_def
        toLowerCase_char_def char_of_eq_iff)
  have i2: "calculateImportance ''build it'' Undefined = 6"
    by (simp add: calculateImportance_def highValueWords_def toLowerCase_def
        toLowerCase_char_def char_of_eq_iff)
  have w: "includes_str ''build it'' ''build''" by simp
  have l: "length ''build it'' \<le> 4990 \<and> \<not> isWhiteSpace (last ''build it'')"
    by (simp add: isWhiteSpace_def)
  have s1: "sanitized ''build it'' = ''build it''"
    by (rule short_sanitized) (simp_all add: isWhiteSpace_def)
  have a: "autoStore recording_engine ''hello there'' Undefined [] = (Inr (), [])"
    using autoStore_effects [of "''hello there''" Undefined recording_engine "[]"] i1 by simp
  have f: "store ?E ''build it'' ?o1 [] = (Inr (MemoryId 0), [?m1])"
    using store_memoryBridge [of "''build it''" ?o1 "Some ''conversation''" "Some 6" None None
        "default_config []" no_results "[]"]
    by (simp add: s1 scoreImportance_def clampImportance_def)
  have s2: "sanitized (''Decision: '' @ ''build it'') = ''Decision: '' @ ''build it''"
    using autoStore_effects [of "''build it''" Undefined ?E "[]" "MemoryId 0" "[?m1]"] w l
    by simp
  have g: "store ?E (''Decision: '' @ ''build it'') ?o2 [?m1] = (Inr (MemoryId 1),
      [?m1, \<lparr> m_id = 1, m_content = ''Decision: build it'', m_type = ''decision'',
              m_importance = 9, m_source = Some ''openclaw-chat'', m_agentId = ''OpenClaw'' \<rparr>])"
    using store_memoryBridge [of "''Decision: '' @ ''build it''" ?o2 "Some ''decision''" "Some 9"
        None None "default_config []" no_results "[?m1]"] s2
    by (simp add: scoreImportance_def clampImportance_def)
  have b: "autoStore ?E ''build it'' Undefined [] = (Inr (),
      [?m1, \<lparr> m_id = 1, m_content = ''Decision: build it'', m_type = ''decision'',
              m_importance = 9, m_source = Some ''openclaw-chat'', m_agentId = ''OpenClaw'' \<rparr>])"
    using autoStore_effects [of "''build it''" Undefined ?E "[]" "MemoryId 0" "[?m1]"] i2 w f g
    by simp
  have u: "store unavailable_engine ''build it'' ?o1 [] = (Inl BackendUnavailableError, [])"
    by (simp add: store_def unavailable_engine_def)
  have c: "autoStore unavailable_engine ''build it'' Undefined []
      = (Inl BackendUnavailableError, [])"
    using autoStore_effects [of "''build it''" Undefined unavailable_engine "[]" "MemoryId 0" "[]"
        BackendUnavailableError] i2 u
    by simp
  show ?thesis using i1 i2 w l a f b u c by simp
qed

section \<open>The installer\<close>

text \<open>
  A first installation, run on a file system that has the workspace directory: \<open>main\<close>
  ends without an exception, and the directory and the three files are there.
\<close>

lemma main_fresh_install:
  "main [''ws''] \<lparr>files = [[''ws''] \<mapsto> Dir], console = []\<rparr> = (e, w') \<Longrightarrow>
     e = None
     \<and> files w' [''ws'', ''.memory-bridge''] = Some Dir
     \<and> files w' [''ws'', ''.memory-bridge'', ''config.json'']
         = Some (File (ConfigJson (default_config [''ws''])))
     \<and> files w' [''ws'', ''.memory-bridge'', ''openclaw-wrapper.js''] = Some (File WrapperCode)
     \<and> files w' [''ws'', ''.memory-bridge'', ''example.js''] = Some (File ExampleCode)
     \<and> length (console w') = 9"
  by (auto simp: main_def Let_def console_log_def existsSync_def MEMORY_DIR_def path_join_def
      mkdirSync_recursive_def writeFileSync_def)

text \<open>A write below a regular file fails with ENOTDIR, as path resolution has it.\<close>

lemma writeFileSync_through_file:
  "writeFileSync [''a'', ''b'', ''c''] d [[''a''] \<mapsto> File (Text ''x'')] = Inl ENOTDIR"
  by (simp add: writeFileSync_def)

text \<open>
  C10. If the installation directory already exists, \<open>main\<close> returns early: it prints
  three lines and ends without an exception, and the file system is as it was, with no
  file written and no directory created.
\<close>

theorem main_already_installed:
  "existsSync (MEMORY_DIR OPENCLAW_DIR) (files w) \<Longrightarrow>
     main OPENCLAW_DIR w =
       (None, w\<lparr>console := console w @
                 [Banner, AlreadyInstalled, Location (MEMORY_DIR OPENCLAW_DIR)]\<rparr>)
     \<and> files (snd (main OPENCLAW_DIR w)) = files w"
  by (simp add: main_def Let_def console_log_def)

theorem main_already_installed_witness:
  "existsSync (MEMORY_DIR [''home'', ''ws''])
     (files \<lparr>files = [[''home'', ''ws'', ''.memory-bridge''] \<mapsto> Dir], console = []\<rparr>)
   \<and> main [''home'', ''ws'']
        \<lparr>files = [[''home'', ''ws'', ''.memory-bridge''] \<mapsto> Dir], console = []\<rparr>
      = (None, \<lparr>files = [[''home'', ''ws'', ''.memory-bridge''] \<mapsto> Dir],
                console = [Banner, AlreadyInstalled,
                           Location [''home'', ''ws'', ''.memory-bridge'']]\<rparr>)"
proof -
  let ?w = "\<lparr>files = [[''home'', ''ws'', ''.memory-bridge''] \<mapsto> Dir], console = []\<rparr>"
  have h: "existsSync (MEMORY_DIR [''home'', ''ws'']) (files ?w)"
    by (simp add: existsSync_def MEMORY_DIR_def path_join_def)
  from main_already_installed [OF h] h show ?thesis
    by (simp add: MEMORY_DIR_def path_join_def)
qed

end
